theory Spec2Isabelle
  imports Complex_Main
begin

section \<open>Cards and the deck\<close>

text \<open>
  \<^verbatim>\<open>Deck.__init__\<close> is the only place of the program that builds cards: one card for
  each of the four suits and each of the thirteen values, so suits and values are
  enumerations (\<open>ranks\<close> is the list \<^verbatim>\<open>values\<close> of the source).  The value of a card
  is the string the source compares and converts; \<open>value_str\<close> gives it back.
\<close>

datatype suit = Hearts | Diamonds | Clubs | Spades

datatype rank =
  Two | Three | Four | Five | Six | Seven | Eight | Nine | Ten | Jack | Queen | King | Ace

record card =
  card_suit :: suit
  card_value :: rank

definition Card :: "suit \<Rightarrow> rank \<Rightarrow> card" where
  "Card s v = \<lparr>card_suit = s, card_value = v\<rparr>"

definition suits :: "suit list" where
  "suits = [Hearts, Diamonds, Clubs, Spades]"

definition ranks :: "rank list" where
  "ranks = [Two, Three, Four, Five, Six, Seven, Eight, Nine, Ten, Jack, Queen, King, Ace]"

fun value_str :: "rank \<Rightarrow> string" where
  "value_str Two = ''2''"
| "value_str Three = ''3''"
| "value_str Four = ''4''"
| "value_str Five = ''5''"
| "value_str Six = ''6''"
| "value_str Seven = ''7''"
| "value_str Eight = ''8''"
| "value_str Nine = ''9''"
| "value_str Ten = ''10''"
| "value_str Jack = ''Jack''"
| "value_str Queen = ''Queen''"
| "value_str King = ''King''"
| "value_str Ace = ''Ace''"

text \<open>
  \<^verbatim>\<open>int(card.value)\<close>, on the values that reach it in \<^verbatim>\<open>score_hand\<close>: the nine
  numerals.  The three faces and the Ace are taken by the earlier branches.
\<close>

fun int_value :: "rank \<Rightarrow> int" where
  "int_value Two = 2"
| "int_value Three = 3"
| "int_value Four = 4"
| "int_value Five = 5"
| "int_value Six = 6"
| "int_value Seven = 7"
| "int_value Eight = 8"
| "int_value Nine = 9"
| "int_value Ten = 10"

text \<open>The list comprehension of \<^verbatim>\<open>Deck.__init__\<close>, before the shuffle.\<close>

definition fresh_cards :: "card list" where
  "fresh_cards = concat (map (\<lambda>s. map (\<lambda>v. Card s v) ranks) suits)"

section \<open>Scoring a hand\<close>

text \<open>
  \<^verbatim>\<open>score_hand\<close>: the \<^verbatim>\<open>for\<close> loop threads \<open>(score, ace_count)\<close> through the
  hand, the \<^verbatim>\<open>while\<close> loop takes 10 off while the score is above 21 and
  \<open>ace_count\<close> is not zero.
\<close>

definition score_card :: "card \<Rightarrow> int \<times> int \<Rightarrow> int \<times> int" where
  "score_card c = (\<lambda>(score, ace_count).
     if card_value c \<in> set [Jack, Queen, King] then (score + 10, ace_count)
     else if card_value c = Ace then (score + 11, ace_count + 1)
     else (score + int_value (card_value c), ace_count))"

fun score_cards :: "card list \<Rightarrow> int \<times> int \<Rightarrow> int \<times> int" where
  "score_cards [] acc = acc"
| "score_cards (c # cs) acc = score_cards cs (score_card c acc)"

function reduce_aces :: "int \<Rightarrow> int \<Rightarrow> int" where
  "reduce_aces score ace_count =
     (if score > 21 \<and> ace_count \<noteq> 0 then reduce_aces (score - 10) (ace_count - 1)
      else score)"
  by pat_completeness auto
termination
  by (relation "measure (\<lambda>(score, ace_count). nat (score - 21))") auto

declare reduce_aces.simps [simp del]

definition score_hand :: "card list \<Rightarrow> int" where
  "score_hand hand = (case score_cards hand (0, 0) of (score, ace_count) \<Rightarrow>
     reduce_aces score ace_count)"

subsection \<open>The evaluation as the specification words it\<close>

text \<open>
  Face cards are worth 10, an Ace 11 at first, a numeral its number; the total is the sum,
  the counted Aces are the Aces of the hand; while the total is above 21 and an Ace is
  still counted as 11, the total loses 10 and the count loses one.
\<close>

fun spec_rank_points :: "rank \<Rightarrow> int" where
  "spec_rank_points Jack = 10"
| "spec_rank_points Queen = 10"
| "spec_rank_points King = 10"
| "spec_rank_points Ace = 11"
| "spec_rank_points r = int_value r"

fun spec_soften :: "int \<Rightarrow> nat \<Rightarrow> int" where
  "spec_soften tot 0 = tot"
| "spec_soften tot (Suc n) = (if tot > 21 then spec_soften (tot - 10) n else tot)"

definition spec_score :: "card list \<Rightarrow> int" where
  "spec_score hand =
     spec_soften (sum_list (map (\<lambda>c. spec_rank_points (card_value c)) hand))
       (length (filter (\<lambda>c. card_value c = Ace) hand))"

section \<open>Properties of the score\<close>

lemma score_card_spec:
  "score_card c (s, a) =
     (s + spec_rank_points (card_value c), a + (if card_value c = Ace then 1 else 0))"
  by (cases "card_value c") (simp_all add: score_card_def)

lemma score_cards_spec:
  "score_cards hand (s, a) =
     (s + sum_list (map (\<lambda>c. spec_rank_points (card_value c)) hand),
      a + int (length (filter (\<lambda>c. card_value c = Ace) hand)))"
  by (induction hand arbitrary: s a) (simp_all add: score_card_spec)

lemma reduce_aces_spec: "reduce_aces s (int n) = spec_soften s n"
proof (induction n arbitrary: s)
  case 0
  show ?case by (subst reduce_aces.simps) simp
next
  case (Suc n)
  have "int (Suc n) - 1 = int n" by simp
  with Suc show ?case by (subst reduce_aces.simps) simp
qed

lemma score_hand_eq_spec: "score_hand hand = spec_score hand"
  by (simp add: score_hand_def spec_score_def score_cards_spec reduce_aces_spec)

subsection \<open>The hard total: every Ace counted as 1\<close>

fun hard_points :: "rank \<Rightarrow> int" where
  "hard_points Ace = 1"
| "hard_points r = spec_rank_points r"

definition hard_total :: "card list \<Rightarrow> int" where
  "hard_total hand = sum_list (map (\<lambda>c. hard_points (card_value c)) hand)"

lemma hard_points_pos: "1 \<le> hard_points r"
  by (cases r) simp_all

lemma spec_soften_ge: "tot - 10 * int n \<le> spec_soften tot n"
proof (induction n arbitrary: tot)
  case 0
  show ?case by simp
next
  case (Suc n)
  from Suc [of "tot - 10"] show ?case by simp
qed

lemma raw_hard:
  "sum_list (map (\<lambda>c. spec_rank_points (card_value c)) hand) =
     hard_total hand + 10 * int (length (filter (\<lambda>c. card_value c = Ace) hand))"
proof (induction hand)
  case Nil
  show ?case by (simp add: hard_total_def)
next
  case (Cons c cs)
  then show ?case by (cases "card_value c") (simp_all add: hard_total_def)
qed

lemma hard_total_le_score: "hard_total hand \<le> score_hand hand"
  using spec_soften_ge [of "sum_list (map (\<lambda>c. spec_rank_points (card_value c)) hand)"
      "length (filter (\<lambda>c. card_value c = Ace) hand)"]
  by (simp add: score_hand_eq_spec spec_score_def raw_hard)

lemma hard_total_snoc: "hard_total hand + 1 \<le> hard_total (hand @ [c])"
  using hard_points_pos [of "card_value c"] by (simp add: hard_total_def)

lemma single_card_11: "(score_hand [c] = 11) = (card_value c = Ace)"
  by (cases "card_value c") (simp_all add: score_hand_eq_spec spec_score_def)

section \<open>The game and the agent\<close>

text \<open>
  The exceptions the methods can raise: \<^verbatim>\<open>list.pop\<close> on an empty list, a dictionary
  read at a missing key, a local variable read before assignment.  A method that has an
  effect returns \<open>Inl\<close> of the exception or \<open>Inr\<close> of its result and the new object.
\<close>

datatype error = IndexError | KeyError | UnboundLocalError

text \<open>The two actions are the indices 0 and 1 of a Q-table entry.\<close>

datatype action = Hit | Stand

text \<open>
  The learning state \<^verbatim>\<open>(player_total, dealer_visible_card, has_ace)\<close>; the second
  component is \<open>None\<close> when the dealer's hand is empty.  A Q-table entry is the
  two-element list \<^verbatim>\<open>[q_hit, q_stand]\<close>: the program only ever stores \<^verbatim>\<open>[0, 0]\<close> and
  assigns to index 0 or 1 of it.  Python's floats are taken as real numbers.
\<close>

type_synonym state = "int \<times> rank option \<times> bool"

type_synonym qvalues = "real \<times> real"

text \<open>
  The \<^verbatim>\<open>random\<close> module is outside the program.  Its outcomes to come are part of the
  model's state: the list each \<^verbatim>\<open>random.shuffle\<close> will leave in the deck (the argument
  is always the 52 fresh cards), the number each \<^verbatim>\<open>random.random()\<close> will return, the
  element each \<^verbatim>\<open>random.choice([0, 1])\<close> will pick.  A call takes outcome number 0 and
  shifts the rest.
\<close>

record rand =
  shuffles :: "nat \<Rightarrow> card list"
  randoms :: "nat \<Rightarrow> real"
  choices :: "nat \<Rightarrow> action"

definition random_shuffle :: "rand \<Rightarrow> card list \<times> rand" where
  "random_shuffle r = (shuffles r 0, r\<lparr>shuffles := \<lambda>k. shuffles r (Suc k)\<rparr>)"

definition random_random :: "rand \<Rightarrow> real \<times> rand" where
  "random_random r = (randoms r 0, r\<lparr>randoms := \<lambda>k. randoms r (Suc k)\<rparr>)"

definition random_choice :: "rand \<Rightarrow> action \<times> rand" where
  "random_choice r = (choices r 0, r\<lparr>choices := \<lambda>k. choices r (Suc k)\<rparr>)"

text \<open>The fields of \<^verbatim>\<open>Blackjack\<close>; \<open>deck\<close> is \<^verbatim>\<open>self.deck.cards\<close>.\<close>

record game =
  deck :: "card list"
  player_hand :: "card list"
  dealer_hand :: "card list"
  game_over :: bool
  alpha :: real
  gamma :: real
  epsilon :: real
  q_table :: "state \<rightharpoonup> qvalues"
  rng :: rand

text \<open>\<^verbatim>\<open>Deck.__init__\<close>: the fresh cards, shuffled.\<close>

definition Deck_init :: "rand \<Rightarrow> card list \<times> rand" where
  "Deck_init r = random_shuffle r"

text \<open>\<^verbatim>\<open>Blackjack.__init__\<close>: it stores its three parameters as they come.\<close>

definition Blackjack_init :: "real \<Rightarrow> real \<Rightarrow> real \<Rightarrow> rand \<Rightarrow> error + game" where
  "Blackjack_init a g e r = (case Deck_init r of (cs, r') \<Rightarrow>
     Inr \<lparr>deck = cs, player_hand = [], dealer_hand = [], game_over = False,
          alpha = a, gamma = g, epsilon = e, q_table = Map.empty, rng = r'\<rparr>)"

text \<open>
  \<^verbatim>\<open>Deck.deal\<close>: an empty deck is initialised again, then the last card is popped.
\<close>

definition deal :: "game \<Rightarrow> error + (card \<times> game)" where
  "deal g =
     (let g1 = (if length (deck g) = 0
                then (case Deck_init (rng g) of (cs, r') \<Rightarrow> g\<lparr>deck := cs, rng := r'\<rparr>)
                else g)
      in if deck g1 = [] then Inl IndexError
         else Inr (last (deck g1), g1\<lparr>deck := butlast (deck g1)\<rparr>))"

definition compute_state :: "game \<Rightarrow> state" where
  "compute_state g =
     (let player_total = score_hand (player_hand g);
          dealer_visible_card =
            (case dealer_hand g of [] \<Rightarrow> None | c # _ \<Rightarrow> Some (card_value c));
          has_ace = list_ex (\<lambda>c. card_value c = Ace)
                      (filter (\<lambda>c. score_hand [c] = 11) (player_hand g))
      in (player_total, dealer_visible_card, has_ace))"

text \<open>Reading and writing index \<open>action\<close> of an entry, \<^verbatim>\<open>max\<close> and \<^verbatim>\<open>np.argmax\<close> of one.\<close>

fun q_get :: "qvalues \<Rightarrow> action \<Rightarrow> real" where
  "q_get (h, s) Hit = h"
| "q_get (h, s) Stand = s"

fun q_set :: "qvalues \<Rightarrow> action \<Rightarrow> real \<Rightarrow> qvalues" where
  "q_set (h, s) Hit v = (v, s)"
| "q_set (h, s) Stand v = (h, v)"

fun q_max :: "qvalues \<Rightarrow> real" where
  "q_max (h, s) = max h s"

text \<open>\<^verbatim>\<open>np.argmax\<close> returns the first index at which the maximum stands.\<close>

fun argmax :: "qvalues \<Rightarrow> action" where
  "argmax (h, s) = (if s > h then Stand else Hit)"

text \<open>\<^verbatim>\<open>dict.get(key, default)\<close>.\<close>

definition dict_get :: "('k \<rightharpoonup> 'v) \<Rightarrow> 'k \<Rightarrow> 'v \<Rightarrow> 'v" where
  "dict_get d k dflt = (case d k of None \<Rightarrow> dflt | Some v \<Rightarrow> v)"

definition update_q_value :: "state \<Rightarrow> action \<Rightarrow> real \<Rightarrow> state \<Rightarrow> game \<Rightarrow> error + game" where
  "update_q_value st action reward next_state g =
     (let current_q = q_get (dict_get (q_table g) st (0, 0)) action;
          max_future_q = q_max (dict_get (q_table g) next_state (0, 0));
          new_q = current_q + alpha g * (reward + gamma g * max_future_q - current_q)
      in case q_table g st of
           None \<Rightarrow> Inl KeyError
         | Some q \<Rightarrow> Inr (g\<lparr>q_table := (q_table g)(st \<mapsto> q_set q action new_q)\<rparr>))"

definition ai_decision :: "game \<Rightarrow> error + (action \<times> game)" where
  "ai_decision g =
     (let st = compute_state g;
          g1 = (if q_table g st = None then g\<lparr>q_table := (q_table g)(st \<mapsto> (0, 0))\<rparr> else g)
      in case random_random (rng g1) of (x, r1) \<Rightarrow>
           (case (if x < epsilon g1 then Inr (random_choice r1)
                  else (case q_table g1 st of
                          None \<Rightarrow> Inl KeyError
                        | Some q \<Rightarrow> Inr (argmax q, r1))) of
              Inl e \<Rightarrow> Inl e
            | Inr (action, r2) \<Rightarrow>
                Inr (action, g1\<lparr>epsilon := epsilon g1 * 0.995, rng := r2\<rparr>)))"

definition deal_initial_cards :: "game \<Rightarrow> error + game" where
  "deal_initial_cards g =
     (case deal g of Inl e \<Rightarrow> Inl e | Inr (c1, g1) \<Rightarrow>
     (case deal g1 of Inl e \<Rightarrow> Inl e | Inr (c2, g2) \<Rightarrow>
     (case deal (g2\<lparr>player_hand := [c1, c2]\<rparr>) of Inl e \<Rightarrow> Inl e | Inr (c3, g3) \<Rightarrow>
     (case deal g3 of Inl e \<Rightarrow> Inl e | Inr (c4, g4) \<Rightarrow>
        Inr (g4\<lparr>dealer_hand := [c3, c4]\<rparr>)))))"

definition player_hit :: "game \<Rightarrow> error + game" where
  "player_hit g =
     (case deal g of Inl e \<Rightarrow> Inl e | Inr (c, g1) \<Rightarrow>
        (let g2 = g1\<lparr>player_hand := player_hand g1 @ [c]\<rparr>
         in if score_hand (player_hand g2) > 21 then Inr (g2\<lparr>game_over := True\<rparr>)
            else Inr g2))"

definition get_winner :: "game \<Rightarrow> error + (int \<times> string)" where
  "get_winner g =
     (let player_score = score_hand (player_hand g);
          dealer_score = score_hand (dealer_hand g)
      in if player_score > 21 then Inr (- 10, ''Player busts! Dealer wins.'')
         else if dealer_score > 21 \<or> player_score > dealer_score then Inr (2, ''Player wins!'')
         else if player_score < dealer_score then Inr (- 1, ''Dealer wins.'')
         else Inr (0, ''It's a tie.''))"

section \<open>The dealer's turn\<close>

lemma deal_frame:
  "deal g = Inr (c, g') \<Longrightarrow>
     player_hand g' = player_hand g \<and> dealer_hand g' = dealer_hand g
     \<and> game_over g' = game_over g \<and> q_table g' = q_table g \<and> epsilon g' = epsilon g
     \<and> alpha g' = alpha g \<and> gamma g' = gamma g"
  by (auto simp: deal_def Let_def Deck_init_def random_shuffle_def split: if_splits prod.splits)

text \<open>
  \<^verbatim>\<open>dealer_turn\<close>: the \<^verbatim>\<open>while\<close> loop deals to the dealer while the dealer's score
  is below 17, then the round is over.  The loop ends on every input: a dealt card adds
  at least 1 to the hard total of the hand, and the score is never below the hard total.
\<close>

function dealer_turn :: "game \<Rightarrow> error + game" where
  "dealer_turn g =
     (if score_hand (dealer_hand g) < 17
      then (case deal g of
              Inl e \<Rightarrow> Inl e
            | Inr (c, g1) \<Rightarrow> dealer_turn (g1\<lparr>dealer_hand := dealer_hand g1 @ [c]\<rparr>))
      else Inr (g\<lparr>game_over := True\<rparr>))"
  by pat_completeness auto
termination
proof (relation "measure (\<lambda>g. nat (17 - hard_total (dealer_hand g)))")
  show "wf (measure (\<lambda>g. nat (17 - hard_total (dealer_hand g))))" by simp
next
  fix g :: game and x2 c g1
  assume lt: "score_hand (dealer_hand g) < 17" and d: "deal g = Inr x2" and x: "(c, g1) = x2"
  from d x have "dealer_hand g1 = dealer_hand g" using deal_frame [of g c g1] by simp
  moreover have "hard_total (dealer_hand g) < 17"
    using lt hard_total_le_score [of "dealer_hand g"] by simp
  ultimately show "(g1\<lparr>dealer_hand := dealer_hand g1 @ [c]\<rparr>, g)
      \<in> measure (\<lambda>g. nat (17 - hard_total (dealer_hand g)))"
    using hard_total_snoc [of "dealer_hand g" c] by simp
qed

declare dealer_turn.simps [simp del]

lemma ai_decision_frame:
  "ai_decision g = Inr (a, g') \<Longrightarrow>
     player_hand g' = player_hand g \<and> dealer_hand g' = dealer_hand g
     \<and> game_over g' = game_over g \<and> deck g' = deck g"
  by (auto simp: ai_decision_def Let_def random_random_def random_choice_def
      split: if_splits prod.splits option.splits sum.splits)

lemma player_hit_frame:
  "player_hit g = Inr g' \<Longrightarrow>
     (\<exists>c. player_hand g' = player_hand g @ [c])
     \<and> game_over g' = (game_over g \<or> score_hand (player_hand g') > 21)"
  by (auto simp: player_hit_def Let_def split: sum.splits prod.splits if_splits dest: deal_frame)

lemma dealer_turn_over: "dealer_turn g = Inr g' \<Longrightarrow> game_over g'"
proof (induction g rule: dealer_turn.induct)
  case (1 g)
  show ?case
  proof (cases "score_hand (dealer_hand g) < 17")
    case True
    with "1.prems" obtain c g1 where d: "deal g = Inr (c, g1)"
      and r: "dealer_turn (g1\<lparr>dealer_hand := dealer_hand g1 @ [c]\<rparr>) = Inr g'"
      by (subst (asm) dealer_turn.simps) (auto split: sum.splits)
    from "1.IH" [OF True d refl r] show ?thesis .
  next
    case False
    with "1.prems" show ?thesis
      by (subst (asm) dealer_turn.simps) auto
  qed
qed

section \<open>One round of the driver\<close>

text \<open>
  The decision loop of \<^verbatim>\<open>main\<close>: while the round is not over the agent decides; a hit
  that busts leaves the loop (\<^verbatim>\<open>break\<close>), a stand runs the dealer's turn.  \<open>act\<close> is
  the local variable \<^verbatim>\<open>action\<close> of \<^verbatim>\<open>main\<close>, \<open>None\<close> while it is unassigned.  The
  printing is left out.
\<close>

function play_loop :: "game \<Rightarrow> action option \<Rightarrow> error + (game \<times> action option)" where
  "play_loop g act =
     (if \<not> game_over g
      then (case ai_decision g of
              Inl e \<Rightarrow> Inl e
            | Inr (action, g1) \<Rightarrow>
                (case action of
                   Hit \<Rightarrow>
                     (case player_hit g1 of
                        Inl e \<Rightarrow> Inl e
                      | Inr g2 \<Rightarrow>
                          if score_hand (player_hand g2) > 21 then Inr (g2, Some action)
                          else play_loop g2 (Some action))
                 | Stand \<Rightarrow>
                     (case dealer_turn g1 of
                        Inl e \<Rightarrow> Inl e
                      | Inr g2 \<Rightarrow> play_loop g2 (Some action))))
      else Inr (g, act))"
  by pat_completeness auto
termination
proof (relation "measure (\<lambda>(g, act). if game_over g then 0
                     else 1 + nat (22 - hard_total (player_hand g)))")
  show "wf (measure (\<lambda>(g, act). if game_over g then 0
                     else 1 + nat (22 - hard_total (player_hand g))))" by simp
next
  fix g :: game and act :: "action option" and x2 action g1 g2
  assume "\<not> game_over g" and a: "ai_decision g = Inr x2" and x: "(action, g1) = x2"
    and "action = Hit" and h: "player_hit g1 = Inr g2"
    and le: "\<not> 21 < score_hand (player_hand g2)"
  from a x have f1: "player_hand g1 = player_hand g" "game_over g1 = game_over g"
    using ai_decision_frame [of g action g1] by simp_all
  from player_hit_frame [OF h] obtain c where
    f2: "player_hand g2 = player_hand g1 @ [c]"
    and o2: "game_over g2 = (game_over g1 \<or> score_hand (player_hand g2) > 21)"
    by blast
  have "hard_total (player_hand g2) \<le> 21"
    using le hard_total_le_score [of "player_hand g2"] by simp
  moreover have "hard_total (player_hand g) + 1 \<le> hard_total (player_hand g2)"
    using hard_total_snoc [of "player_hand g" c] f1 f2 by simp
  ultimately show "((g2, Some action), (g, act))
      \<in> measure (\<lambda>(g, act). if game_over g then 0
                     else 1 + nat (22 - hard_total (player_hand g)))"
    using \<open>\<not> game_over g\<close> o2 f1 le by simp
next
  fix g :: game and act :: "action option" and x2 action g1 g2
  assume "\<not> game_over g" and "dealer_turn g1 = Inr g2"
  then show "((g2, Some action), (g, act))
      \<in> measure (\<lambda>(g, act). if game_over g then 0
                     else 1 + nat (22 - hard_total (player_hand g)))"
    using dealer_turn_over [of g1 g2] by simp
qed

declare play_loop.simps [simp del]

text \<open>
  The body of the \<^verbatim>\<open>while True\<close> loop of \<^verbatim>\<open>main\<close> from the initial deal on: the
  deal, \<^verbatim>\<open>prev_state\<close>, the decision loop, \<^verbatim>\<open>next_state\<close>, the reward, the update of
  the Q-table and the reset of \<^verbatim>\<open>game_over\<close>.  The prompt, the win statistics and the
  plot are left out: they do not touch the game object.
\<close>

definition play_round :: "game \<Rightarrow> action option \<Rightarrow> error + (game \<times> action option)" where
  "play_round g act =
     (case deal_initial_cards g of
        Inl e \<Rightarrow> Inl e
      | Inr g1 \<Rightarrow>
          (let prev_state = compute_state g1
           in case play_loop g1 act of
                Inl e \<Rightarrow> Inl e
              | Inr (g2, act2) \<Rightarrow>
                  (let next_state = compute_state g2
                   in case get_winner g2 of
                        Inl e \<Rightarrow> Inl e
                      | Inr (reward, result_string) \<Rightarrow>
                          (case act2 of
                             None \<Rightarrow> Inl UnboundLocalError
                           | Some action \<Rightarrow>
                               (case update_q_value prev_state action (of_int reward)
                                       next_state g2 of
                                  Inl e \<Rightarrow> Inl e
                                | Inr g3 \<Rightarrow> Inr (g3\<lparr>game_over := False\<rparr>, act2))))))"

section \<open>Concrete inputs\<close>

text \<open>
  A shuffled deck of the 52 cards.  The deck is popped from its end: the first five cards
  dealt are the 5 of hearts, the 6 of diamonds, the 10 of spades, the 7 of spades and the
  9 of clubs; the other 47 lie below them in their fresh order.
\<close>

definition rest47 :: "card list" where
  "rest47 = filter (\<lambda>c. c \<notin> set [Card Clubs Nine, Card Spades Seven, Card Spades Ten,
                                    Card Diamonds Six, Card Hearts Five]) fresh_cards"

definition shuffled0 :: "card list" where
  "shuffled0 = rest47 @ [Card Clubs Nine, Card Spades Seven, Card Spades Ten,
                         Card Diamonds Six, Card Hearts Five]"

text \<open>
  Outcomes of the \<^verbatim>\<open>random\<close> module for the examples: every shuffle leaves
  \<open>shuffled0\<close>, every \<^verbatim>\<open>random.random()\<close> gives one half, the first
  \<^verbatim>\<open>random.choice\<close> picks 0 (hit) and the later ones 1 (stand).
\<close>

definition rand0 :: rand where
  "rand0 = \<lparr>shuffles = \<lambda>k. shuffled0, randoms = \<lambda>k. 1 / 2,
            choices = \<lambda>k. if k = 0 then Hit else Stand\<rparr>"

text \<open>
  The agent as \<^verbatim>\<open>Blackjack()\<close> builds it, with the default parameters, an empty
  Q-table and the deck \<open>shuffled0\<close>: the player will be dealt 5 and 6, the dealer 10 and
  7, and the next card is a 9.
\<close>

definition game0 :: game where
  "game0 = \<lparr>deck = shuffled0,
            player_hand = [], dealer_hand = [], game_over = False,
            alpha = 1 / 2, gamma = 9 / 10, epsilon = 1, q_table = Map.empty, rng = rand0\<rparr>"

lemma shuffled0_permutes:
  "length shuffled0 = 52 \<and> distinct shuffled0 \<and> set shuffled0 = set fresh_cards"
  by (simp add: shuffled0_def rest47_def fresh_cards_def suits_def ranks_def Card_def)
    (auto simp: Card_def)

lemma game0_fresh: "Blackjack_init 0.5 0.9 1.0 rand0 = Inr game0"
  by (simp add: Blackjack_init_def Deck_init_def random_shuffle_def game0_def rand0_def)

subsection \<open>The parameter ranges of the specification\<close>

text \<open>
  The ranges the specification gives for the three parameters: the learning rate in
  (0, 1], the discount factor in [0, 1], the exploration rate a probability.
\<close>

definition spec_valid_config :: "real \<Rightarrow> real \<Rightarrow> real \<Rightarrow> bool" where
  "spec_valid_config a g e = (0 < a \<and> a \<le> 1 \<and> 0 \<le> g \<and> g \<le> 1 \<and> 0 \<le> e \<and> e \<le> 1)"

section \<open>Lemmas on the Q-table\<close>

lemma q_get_q_set: "q_get (q_set q a v) b = (if b = a then v else q_get q b)"
  by (cases q; cases a; cases b) simp_all

lemma update_q_value_Some:
  "q_table g st = Some q \<Longrightarrow>
     update_q_value st a reward nxt g =
       Inr (g\<lparr>q_table := (q_table g)(st \<mapsto> q_set q a
              (q_get q a + alpha g * (reward + gamma g * q_max (dict_get (q_table g) nxt (0, 0))
                 - q_get q a)))\<rparr>)"
  by (simp add: update_q_value_def Let_def dict_get_def)

section \<open>Lemmas on the operations\<close>



lemma deal_nonempty:
  "deck g \<noteq> [] \<Longrightarrow> deal g = Inr (last (deck g), g\<lparr>deck := butlast (deck g)\<rparr>)"
  by (simp add: deal_def Let_def)







section \<open>Sequences of method calls\<close>

text \<open>
  A driver calls the methods of one game object in some order; \<open>run_calls\<close> runs such a
  sequence and stops at the first exception.
\<close>

datatype call = Decide | PlayerHit | DealerTurn | DealInitialCards
  | UpdateQValue state action real state

fun run_call :: "call \<Rightarrow> game \<Rightarrow> error + game" where
  "run_call Decide g = (case ai_decision g of Inl e \<Rightarrow> Inl e | Inr (action, g') \<Rightarrow> Inr g')"
| "run_call PlayerHit g = player_hit g"
| "run_call DealerTurn g = dealer_turn g"
| "run_call DealInitialCards g = deal_initial_cards g"
| "run_call (UpdateQValue st action reward next_state) g =
     update_q_value st action reward next_state g"

fun run_calls :: "call list \<Rightarrow> game \<Rightarrow> error + game" where
  "run_calls [] g = Inr g"
| "run_calls (c # cs) g = (case run_call c g of Inl e \<Rightarrow> Inl e | Inr g' \<Rightarrow> run_calls cs g')"

lemma ai_decision_returns:
  "\<exists>action g'. ai_decision g = Inr (action, g') \<and> epsilon g' = epsilon g * 0.995"
  by (auto simp: ai_decision_def Let_def random_random_def random_choice_def
      split: prod.splits option.splits)

lemma ai_decision_epsilon:
  "ai_decision g = Inr (action, g') \<Longrightarrow> epsilon g' = epsilon g * 0.995"
  using ai_decision_returns [of g] by auto

lemma player_hit_epsilon: "player_hit g = Inr g' \<Longrightarrow> epsilon g' = epsilon g"
  by (auto simp: player_hit_def Let_def split: sum.splits prod.splits if_splits dest: deal_frame)

lemma deal_initial_cards_epsilon: "deal_initial_cards g = Inr g' \<Longrightarrow> epsilon g' = epsilon g"
  by (auto simp: deal_initial_cards_def split: sum.splits prod.splits dest!: deal_frame)

lemma update_q_value_epsilon:
  "update_q_value st a r nxt g = Inr g' \<Longrightarrow> epsilon g' = epsilon g"
  by (auto simp: update_q_value_def Let_def split: option.splits)

lemma dealer_turn_epsilon: "dealer_turn g = Inr g' \<Longrightarrow> epsilon g' = epsilon g"
proof (induction g rule: dealer_turn.induct)
  case (1 g)
  show ?case
  proof (cases "score_hand (dealer_hand g) < 17")
    case True
    with "1.prems" obtain c g1 where d: "deal g = Inr (c, g1)"
      and r: "dealer_turn (g1\<lparr>dealer_hand := dealer_hand g1 @ [c]\<rparr>) = Inr g'"
      by (subst (asm) dealer_turn.simps) (auto split: sum.splits)
    from "1.IH" [OF True d refl r] deal_frame [OF d] show ?thesis by simp
  next
    case False
    with "1.prems" show ?thesis
      by (subst (asm) dealer_turn.simps) auto
  qed
qed

lemma run_call_epsilon:
  "run_call c g = Inr g' \<Longrightarrow> epsilon g' = epsilon g * 0.995 ^ count_list [c] Decide"
  by (cases c)
    (auto split: sum.splits dest: ai_decision_epsilon player_hit_epsilon dealer_turn_epsilon
      deal_initial_cards_epsilon update_q_value_epsilon)

lemma run_calls_epsilon:
  "run_calls cs g = Inr g' \<Longrightarrow> epsilon g' = epsilon g * 0.995 ^ count_list cs Decide"
proof (induction cs arbitrary: g)
  case Nil
  then show ?case by simp
next
  case (Cons c cs)
  from Cons.prems obtain g1 where c: "run_call c g = Inr g1" and r: "run_calls cs g1 = Inr g'"
    by (auto split: sum.splits)
  from run_call_epsilon [OF c] Cons.IH [OF r] show ?case
    by (simp add: power_add flip: power_Suc)
qed

lemma count_replicate: "count_list (replicate n x) x = n"
  by (induction n) simp_all

lemma run_decides: "\<exists>g'. run_calls (replicate n Decide) g = Inr g'"
proof (induction n arbitrary: g)
  case 0
  show ?case by simp
next
  case (Suc n)
  obtain a g1 where "ai_decision g = Inr (a, g1)" using ai_decision_returns [of g] by blast
  with Suc [of g1] show ?case by simp
qed

section \<open>A round with two decisions\<close>

text \<open>
  The round played from \<open>game0\<close>: after the deal (\<open>game1\<close>) the agent explores and
  hits (\<open>game2\<close>, \<open>game3\<close>), then explores and stands (\<open>game4\<close>), and the dealer,
  at 17, draws nothing (\<open>game5\<close>).
\<close>

definition game1 :: game where
  "game1 = game0\<lparr>deck := rest47 @ [Card Clubs Nine],
                 player_hand := [Card Hearts Five, Card Diamonds Six],
                 dealer_hand := [Card Spades Ten, Card Spades Seven]\<rparr>"

definition game2 :: game where
  "game2 = game1\<lparr>epsilon := 0.995, q_table := [(11, Some Ten, False) \<mapsto> (0, 0)],
                 rng := rand0\<lparr>choices := \<lambda>k. Stand\<rparr>\<rparr>"

definition game3 :: game where
  "game3 = game2\<lparr>deck := rest47,
                 player_hand := [Card Hearts Five, Card Diamonds Six, Card Clubs Nine]\<rparr>"

definition game4 :: game where
  "game4 = game3\<lparr>epsilon := 0.995 * 0.995,
                 q_table := [(11, Some Ten, False) \<mapsto> (0, 0),
                             (20, Some Ten, False) \<mapsto> (0, 0)]\<rparr>"

definition game5 :: game where
  "game5 = game4\<lparr>game_over := True\<rparr>"

lemma score_5_6: "score_hand [Card Hearts Five, Card Diamonds Six] = 11"
  by (simp add: score_hand_eq_spec spec_score_def Card_def)

lemma score_5_6_9: "score_hand [Card Hearts Five, Card Diamonds Six, Card Clubs Nine] = 20"
  by (simp add: score_hand_eq_spec spec_score_def Card_def)

lemma score_10_7: "score_hand [Card Spades Ten, Card Spades Seven] = 17"
  by (simp add: score_hand_eq_spec spec_score_def Card_def)

lemma eval_deal: "deal_initial_cards game0 = Inr game1"
  by (simp add: game1_def game0_def shuffled0_def deal_initial_cards_def deal_nonempty
      butlast_append)

lemma eval_state1: "compute_state game1 = (11, Some Ten, False)"
  by (simp add: compute_state_def game1_def game0_def score_5_6 single_card_11)
    (simp add: Card_def)

lemma eval_decide1: "ai_decision game1 = Inr (Hit, game2)"
  by (simp add: ai_decision_def eval_state1 Let_def random_random_def random_choice_def)
    (simp add: game2_def game1_def game0_def rand0_def)

lemma eval_hit: "player_hit game2 = Inr game3"
  by (simp add: player_hit_def game3_def game2_def game1_def game0_def deal_nonempty Let_def
      butlast_append
      score_5_6_9)

lemma eval_state3: "compute_state game3 = (20, Some Ten, False)"
  by (simp add: compute_state_def game3_def game2_def game1_def game0_def score_5_6_9
      single_card_11)
    (simp add: Card_def)

lemma eval_decide2: "ai_decision game3 = Inr (Stand, game4)"
  by (simp add: ai_decision_def eval_state3 Let_def random_random_def random_choice_def)
    (simp add: game4_def game3_def game2_def game1_def game0_def rand0_def fun_upd_twist)

lemma eval_stand: "dealer_turn game4 = Inr game5"
  by (subst dealer_turn.simps)
    (simp add: game5_def game4_def game3_def game2_def game1_def game0_def score_10_7)

lemma eval_loop: "play_loop game1 None = Inr (game5, Some Stand)"
proof -
  have 1: "\<not> game_over game1" "\<not> game_over game3" "game_over game5"
    by (simp_all add: game5_def game4_def game3_def game2_def game1_def game0_def)
  have 2: "\<not> 21 < score_hand (player_hand game3)"
    by (simp add: game3_def score_5_6_9)
  have "play_loop game5 (Some Stand) = Inr (game5, Some Stand)"
    by (subst play_loop.simps) (simp add: 1)
  then have "play_loop game3 (Some Hit) = Inr (game5, Some Stand)"
    by (subst play_loop.simps) (simp add: 1 eval_decide2 eval_stand)
  then show ?thesis
    by (subst play_loop.simps) (simp add: 1 2 eval_decide1 eval_hit)
qed

lemma eval_winner: "get_winner game5 = Inr (2, ''Player wins!'')"
  by (simp add: get_winner_def game5_def game4_def game3_def game2_def game1_def game0_def
      score_5_6_9 score_10_7)

lemma eval_state5: "compute_state game5 = (20, Some Ten, False)"
  using eval_state3
  by (simp add: compute_state_def game5_def game4_def)

lemma eval_round:
  "play_round game0 None =
     Inr (game5\<lparr>game_over := False,
                q_table := [(11, Some Ten, False) \<mapsto> (0, 1),
                            (20, Some Ten, False) \<mapsto> (0, 0)]\<rparr>, Some Stand)"
  apply (simp add: play_round_def eval_deal eval_loop eval_state1 eval_state5 eval_winner)
  apply (subst update_q_value_Some [where q = "(0, 0)"])
   apply (simp add: game5_def game4_def)
  apply (simp add: game5_def game4_def game3_def game2_def game1_def game0_def dict_get_def)
  apply (rule ext)
  apply simp
  done

text \<open>The game after the deal with epsilon forced to 0 and one Q-table entry.\<close>

definition greedy_game :: "qvalues \<Rightarrow> game" where
  "greedy_game q = game1\<lparr>epsilon := 0, q_table := [(11, Some Ten, False) \<mapsto> q]\<rparr>"

lemma ai_decision_exploit:
  assumes "epsilon g = 0" and "0 \<le> randoms (rng g) 0"
    and "q_table g (compute_state g) = Some (h, s)"
  shows "ai_decision g =
           Inr (if h < s then Stand else Hit,
                g\<lparr>epsilon := 0, rng := (rng g)\<lparr>randoms := \<lambda>k. randoms (rng g) (Suc k)\<rparr>\<rparr>)"
  using assms
  by (simp add: ai_decision_def Let_def random_random_def)

lemma ai_decision_exploit_new:
  assumes "epsilon g = 0" and "0 \<le> randoms (rng g) 0"
    and "q_table g (compute_state g) = None"
  shows "ai_decision g =
           Inr (Hit,
                g\<lparr>epsilon := 0, q_table := (q_table g)(compute_state g \<mapsto> (0, 0)),
                  rng := (rng g)\<lparr>randoms := \<lambda>k. randoms (rng g) (Suc k)\<rparr>\<rparr>)"
  using assms
  by (simp add: ai_decision_def Let_def random_random_def)

section \<open>The dealer's turn returns\<close>

text \<open>
  A dealer at a soft 16 (Ace and 5), with a 10 and then a 6 to come from the deck.
\<close>

definition soft16 :: game where
  "soft16 = game0\<lparr>deck := [Card Clubs Six, Card Clubs Ten],
                  dealer_hand := [Card Hearts Ace, Card Diamonds Five]\<rparr>"

lemma deal_returns:
  assumes "\<forall>k. shuffles (rng g) k \<noteq> []"
  shows "\<exists>c g'. deal g = Inr (c, g') \<and> (\<forall>k. shuffles (rng g') k \<noteq> [])"
  using assms
  by (auto simp: deal_def Let_def Deck_init_def random_shuffle_def split: prod.splits)

lemma dealer_turn_returns:
  assumes "\<forall>k. shuffles (rng g) k \<noteq> []"
  shows "\<exists>g' cs. dealer_turn g = Inr g' \<and> 17 \<le> score_hand (dealer_hand g') \<and> game_over g'
           \<and> dealer_hand g' = dealer_hand g @ cs \<and> player_hand g' = player_hand g"
  using assms
proof (induction g rule: dealer_turn.induct)
  case (1 g)
  show ?case
  proof (cases "score_hand (dealer_hand g) < 17")
    case True
    from deal_returns [OF "1.prems"] obtain c g1 where d: "deal g = Inr (c, g1)"
      and s: "\<forall>k. shuffles (rng g1) k \<noteq> []"
      by blast
    let ?g2 = "g1\<lparr>dealer_hand := dealer_hand g1 @ [c]\<rparr>"
    from s have "\<forall>k. shuffles (rng ?g2) k \<noteq> []" by simp
    from "1.IH" [OF True d refl this] obtain g' cs where
      r: "dealer_turn ?g2 = Inr g'" and p: "17 \<le> score_hand (dealer_hand g')" "game_over g'"
      and h: "dealer_hand g' = dealer_hand ?g2 @ cs" "player_hand g' = player_hand ?g2"
      by blast
    have "dealer_turn g = Inr g'"
      using True d r by (subst dealer_turn.simps) simp
    moreover have "dealer_hand g' = dealer_hand g @ (c # cs)" "player_hand g' = player_hand g"
      using h deal_frame [OF d] by simp_all
    ultimately show ?thesis using p by blast
  next
    case False
    then have "dealer_turn g = Inr (g\<lparr>game_over := True\<rparr>)"
      by (subst dealer_turn.simps) simp
    with False show ?thesis by simp
  qed
qed

section \<open>The claims\<close>

text \<open>
  C6: for every hand, of any length, \<open>score_hand\<close> is the reference evaluation of the
  specification (ranks summed with faces at 10 and Aces at 11, then 10 taken off per
  counted Ace while the total is above 21); a hand of Ace, Ace, 9 scores 21, King and
  Queen score 20, the empty hand scores 0.
\<close>

theorem score_hand_reference:
  "score_hand hand = spec_score hand
   \<and> score_hand [Card s1 Ace, Card s2 Ace, Card s3 Nine] = 21
   \<and> score_hand [Card s4 King, Card s5 Queen] = 20
   \<and> score_hand [] = 0"
proof -
  have eq: "score_hand h = spec_score h" for h
    by (rule score_hand_eq_spec)
  have "spec_score [Card s1 Ace, Card s2 Ace, Card s3 Nine] = 21"
    by (simp add: spec_score_def Card_def)
  moreover have "spec_score [Card s4 King, Card s5 Queen] = 20"
    by (simp add: spec_score_def Card_def)
  moreover have "spec_score [] = 0"
    by (simp add: spec_score_def)
  ultimately show ?thesis by (simp add: eq)
qed

text \<open>
  C5: for every pair of final hands, \<open>get_winner\<close> returns a reward, and exactly one of
  the four outcomes holds of the two scores: the player busts (score above 21) and the
  reward is -10; else the dealer busts or the player's score is the greater and the reward
  is 2; else the player's score is the smaller and the reward is -1; else the scores are
  equal and the reward is 0.
\<close>

theorem get_winner_branches:
  "\<exists>reward msg. get_winner g = Inr (reward, msg)
     \<and> (let p = score_hand (player_hand g); d = score_hand (dealer_hand g);
             busts = (21 < p);
             wins = (p \<le> 21 \<and> (21 < d \<or> d < p));
             loses = (p \<le> 21 \<and> d \<le> 21 \<and> p < d);
             ties = (p \<le> 21 \<and> d = p)
         in ((busts \<and> \<not> wins \<and> \<not> loses \<and> \<not> ties)
             \<or> (wins \<and> \<not> busts \<and> \<not> loses \<and> \<not> ties)
             \<or> (loses \<and> \<not> busts \<and> \<not> wins \<and> \<not> ties)
             \<or> (ties \<and> \<not> busts \<and> \<not> wins \<and> \<not> loses))
            \<and> (reward = - 10) = busts \<and> (msg = ''Player busts! Dealer wins.'') = busts
            \<and> (reward = 2) = wins \<and> (msg = ''Player wins!'') = wins
            \<and> (reward = - 1) = loses \<and> (msg = ''Dealer wins.'') = loses
            \<and> (reward = 0) = ties \<and> (msg = ''It's a tie.'') = ties)"
  by (auto simp: get_winner_def Let_def)

text \<open>
  C10: the third component of the learning state is true exactly when the player's hand
  holds an Ace, since a card scored alone gives 11 exactly when it is an Ace.  So it is
  true for the hard hand Ace, 9, 9: the hand scores 19, which is its hard total (the Ace
  counts 1), and the indicator is set.
\<close>

theorem has_ace_iff_holds_ace:
  "snd (snd (compute_state g)) = (Ace \<in> card_value ` set (player_hand g))
   \<and> (score_hand [c] = 11) = (card_value c = Ace)
   \<and> score_hand [Card s1 Ace, Card s2 Nine, Card s3 Nine] = 19
   \<and> hard_total [Card s1 Ace, Card s2 Nine, Card s3 Nine] = 19
   \<and> compute_state (g\<lparr>player_hand := [Card s1 Ace, Card s2 Nine, Card s3 Nine]\<rparr>)
       = (19, fst (snd (compute_state g)), True)"
proof -
  have a: "snd (snd (compute_state g)) = (Ace \<in> card_value ` set (player_hand g))" for g
    by (auto simp: compute_state_def Let_def list_ex_iff single_card_11 intro: rev_image_eqI)
  have b: "score_hand [Card s1 Ace, Card s2 Nine, Card s3 Nine] = 19"
    by (simp add: score_hand_eq_spec spec_score_def Card_def)
  have c: "hard_total [Card s1 Ace, Card s2 Nine, Card s3 Nine] = 19"
    by (simp add: hard_total_def Card_def)
  have d: "compute_state (g\<lparr>player_hand := [Card s1 Ace, Card s2 Nine, Card s3 Nine]\<rparr>)
       = (19, fst (snd (compute_state g)), True)"
    using b by (simp add: compute_state_def Let_def single_card_11) (simp add: Card_def)
  show ?thesis using a b c d single_card_11 by blast
qed

text \<open>
  C3, as the specification states it, fails: the constructor called with alpha = 5, outside
  (0, 1], rejects nothing and returns the agent.
\<close>

theorem init_accepts_bad_alpha:
  "\<not> spec_valid_config 5 (9 / 10) 1 \<and> \<not> isl (Blackjack_init 5 (9 / 10) 1 rand0)"
  by (simp add: spec_valid_config_def Blackjack_init_def Deck_init_def random_shuffle_def
      split: prod.splits)

text \<open>
  C3, amended: the constructor checks no range.  For all values of alpha, gamma and
  epsilon, inside their ranges or not, it returns an agent that stores the three values
  as given, with empty hands, an empty Q-table and a freshly shuffled deck; so a validly
  configured agent is constructed without error, and so is any other.
\<close>

theorem init_stores_parameters:
  "\<exists>b. Blackjack_init a g e r = Inr b \<and> alpha b = a \<and> gamma b = g \<and> epsilon b = e
     \<and> q_table b = Map.empty \<and> player_hand b = [] \<and> dealer_hand b = []
     \<and> \<not> game_over b \<and> deck b = shuffles r 0"
  by (simp add: Blackjack_init_def Deck_init_def random_shuffle_def)

text \<open>
  C9: when the prior state is a key of the Q-table, \<open>update_q_value\<close> returns, and the
  new table differs from the old one only at index \<open>action\<close> of the prior state's entry,
  which receives the temporal-difference value: the other index of that entry, every other
  key, the set of keys and every other field of the object are unchanged.  When the next
  state is not a key, it is read as \<^verbatim>\<open>[0, 0]\<close> and is still not a key afterwards.
\<close>

theorem update_q_value_frame:
  assumes "q_table g st = Some q"
  shows "\<exists>g' q'. update_q_value st a reward nxt g = Inr g'
     \<and> q_table g' st = Some q'
     \<and> q_get q' a = q_get q a + alpha g * (reward + gamma g * q_max (dict_get (q_table g) nxt (0, 0)) - q_get q a)
     \<and> (\<forall>b. b \<noteq> a \<longrightarrow> q_get q' b = q_get q b)
     \<and> (\<forall>s. s \<noteq> st \<longrightarrow> q_table g' s = q_table g s)
     \<and> dom (q_table g') = dom (q_table g)
     \<and> g'\<lparr>q_table := q_table g\<rparr> = g
     \<and> (q_table g nxt = None \<longrightarrow>
          q_table g' nxt = None
          \<and> q_get q' a = q_get q a + alpha g * (reward + gamma g * max 0 0 - q_get q a))"
proof -
  define v where
    "v = q_get q a + alpha g * (reward + gamma g * q_max (dict_get (q_table g) nxt (0, 0))
           - q_get q a)"
  define q' where "q' = q_set q a v"
  define g' where "g' = g\<lparr>q_table := (q_table g)(st \<mapsto> q')\<rparr>"
  have r: "update_q_value st a reward nxt g = Inr g'"
    by (simp add: update_q_value_Some [OF assms] g'_def q'_def v_def)
  have t: "q_table g' st = Some q'"
    by (simp add: g'_def)
  have c1: "q_get q' a = v" and c2: "\<forall>b. b \<noteq> a \<longrightarrow> q_get q' b = q_get q b"
    by (simp_all add: q'_def q_get_q_set)
  have c3: "\<forall>s. s \<noteq> st \<longrightarrow> q_table g' s = q_table g s"
    by (simp add: g'_def)
  have c4: "dom (q_table g') = dom (q_table g)"
    using assms by (auto simp: g'_def)
  have c5: "g'\<lparr>q_table := q_table g\<rparr> = g"
    by (simp add: g'_def)
  have c6: "q_table g nxt = None \<longrightarrow>
      q_table g' nxt = None
      \<and> q_get q' a = q_get q a + alpha g * (reward + gamma g * max 0 0 - q_get q a)"
    using assms by (auto simp: g'_def c1 v_def dict_get_def)
  from r t c1 c2 c3 c4 c5 c6 show ?thesis
    unfolding v_def by blast
qed

theorem update_q_value_frame_witness:
  "\<exists>g'. update_q_value (11, Some Ten, False) Stand 2 (20, Some Ten, False)
           (game0\<lparr>q_table := [(11, Some Ten, False) \<mapsto> (0, 0)]\<rparr>) = Inr g'
     \<and> q_table g' (11, Some Ten, False) = Some (0, 1)
     \<and> q_table g' (20, Some Ten, False) = None
     \<and> dom (q_table g') = {(11, Some Ten, False)}"
  using update_q_value_frame [of "game0\<lparr>q_table := [(11, Some Ten, False) \<mapsto> (0, 0)]\<rparr>"
      "(11, Some Ten, False)" "(0, 0)" Stand 2 "(20, Some Ten, False)"]
  by (simp add: game0_def update_q_value_Some dict_get_def)




text \<open>
  C7: every call of \<open>ai_decision\<close> returns and multiplies epsilon by 0.995, whatever
  the random outcomes, the Q-table and the hands are; so N calls from epsilon = 1 leave
  0.995 ^ N, in exact arithmetic.  No other method changes epsilon: after any sequence of
  calls that returns, epsilon is its first value times 0.995 to the number of
  \<open>ai_decision\<close> calls in the sequence, so the decay is per decision and not per round.
\<close>

theorem epsilon_decays_per_decision:
  "(\<exists>action g'. ai_decision g = Inr (action, g') \<and> epsilon g' = epsilon g * 0.995)
   \<and> (\<exists>g'. run_calls (replicate n Decide) (g\<lparr>epsilon := 1\<rparr>) = Inr g'
          \<and> epsilon g' = 1 * 0.995 ^ n)
   \<and> (\<forall>cs g'. run_calls cs g = Inr g' \<longrightarrow>
          epsilon g' = epsilon g * 0.995 ^ count_list cs Decide)"
proof -
  obtain g' where r: "run_calls (replicate n Decide) (g\<lparr>epsilon := 1\<rparr>) = Inr g'"
    using run_decides by blast
  from run_calls_epsilon [OF r] have "epsilon g' = 1 * 0.995 ^ n"
    by (simp add: count_replicate)
  with r ai_decision_returns [of g] run_calls_epsilon [of _ g] show ?thesis by blast
qed

theorem epsilon_decays_per_decision_witness:
  "\<exists>g'. run_calls [DealInitialCards, Decide, PlayerHit, Decide, DealerTurn] game0 = Inr g'
     \<and> epsilon g' = 0.995 ^ 2"
proof -
  have r: "run_calls [DealInitialCards, Decide, PlayerHit, Decide, DealerTurn] game0 = Inr game5"
    by (simp add: eval_deal eval_decide1 eval_hit eval_decide2 eval_stand)
  from epsilon_decays_per_decision [of game0 0] r
  have "epsilon game5 = epsilon game0 * 0.995 ^ count_list [DealInitialCards, Decide, PlayerHit, Decide, DealerTurn] Decide"
    by blast
  moreover have "count_list [DealInitialCards, Decide, PlayerHit, Decide, DealerTurn] Decide = 2"
    by simp
  moreover have "epsilon game0 = 1"
    by (simp add: game0_def)
  ultimately have "epsilon game5 = 0.995 ^ 2"
    by (simp only: mult_1)
  with r show ?thesis by blast
qed

text \<open>
  C1 against the code, on the first round of the fresh agent \<open>game0\<close>.  The state
  after the initial deal is (11, 10, False); the agent hits there; the state before the
  final action is
  (20, 10, False), where the agent stands; the dealer stays at 17 and the reward is 2.
  The one update of the round is then written to the entry of the state after the initial
  deal, at index Stand, an action never taken there; the entry of the state in which the
  final action was taken is left at [0, 0].
\<close>

theorem round_updates_initial_state:
  "Blackjack_init 0.5 0.9 1.0 rand0 = Inr game0
   \<and> deal_initial_cards game0 = Inr game1
   \<and> compute_state game1 = (11, Some Ten, False)
   \<and> ai_decision game1 = Inr (Hit, game2)
   \<and> player_hit game2 = Inr game3
   \<and> compute_state game3 = (20, Some Ten, False)
   \<and> ai_decision game3 = Inr (Stand, game4)
   \<and> dealer_turn game4 = Inr game5
   \<and> play_loop game1 None = Inr (game5, Some Stand)
   \<and> compute_state game5 = (20, Some Ten, False)
   \<and> get_winner game5 = Inr (2, ''Player wins!'')
   \<and> q_table game5 = [(11, Some Ten, False) \<mapsto> (0, 0), (20, Some Ten, False) \<mapsto> (0, 0)]
   \<and> play_round game0 None =
       Inr (game5\<lparr>game_over := False,
                  q_table := [(11, Some Ten, False) \<mapsto> (0, 1),
                              (20, Some Ten, False) \<mapsto> (0, 0)]\<rparr>, Some Stand)"
proof -
  have "q_table game5 =
      [(11, Some Ten, False) \<mapsto> (0, 0), (20, Some Ten, False) \<mapsto> (0, 0)]"
    by (simp add: game5_def game4_def)
  then show ?thesis
    by (simp only: game0_fresh eval_deal eval_state1 eval_decide1 eval_hit eval_state3
        eval_decide2 eval_stand eval_loop eval_state5 eval_winner eval_round simp_thms)
qed

text \<open>
  C8: with epsilon at 0 (and \<^verbatim>\<open>random.random()\<close> in [0, 1), so never below epsilon)
  the selection is deterministic and greedy.  For every entry [h, s] of the state it
  returns Stand when s is strictly greater than h and Hit otherwise, so the value of the
  chosen action is the maximum of the two and a tie goes to Hit, the first index; the
  Q-table is left as it is and no \<^verbatim>\<open>random.choice\<close> is consumed.  In particular it
  returns Hit on [5, 3], Stand on [3, 5], Hit on equal values, and Hit on a new state,
  whose entry is the fresh [0, 0].  The action does not depend on the random outcomes:
  any other random source gives the same action.
\<close>

theorem greedy_when_epsilon_zero:
  assumes "epsilon g = 0" and "0 \<le> randoms (rng g) 0"
  shows "(q_table g (compute_state g) = Some (5, 3) \<longrightarrow> (\<exists>g'. ai_decision g = Inr (Hit, g')))
     \<and> (q_table g (compute_state g) = Some (3, 5) \<longrightarrow> (\<exists>g'. ai_decision g = Inr (Stand, g')))
     \<and> (q_table g (compute_state g) = Some (v, v) \<longrightarrow> (\<exists>g'. ai_decision g = Inr (Hit, g')))
     \<and> (q_table g (compute_state g) = None \<longrightarrow> (\<exists>g'. ai_decision g = Inr (Hit, g')))
     \<and> (\<forall>h s. q_table g (compute_state g) = Some (h, s) \<longrightarrow>
          (\<exists>a g'. ai_decision g = Inr (a, g')
             \<and> a = (if h < s then Stand else Hit)
             \<and> (if a = Hit then h else s) = max h s
             \<and> (a = Hit) = (s \<le> h)
             \<and> q_table g' = q_table g
             \<and> choices (rng g') = choices (rng g)))
     \<and> (\<forall>r. 0 \<le> randoms r 0 \<longrightarrow>
          map_sum id fst (ai_decision (g\<lparr>rng := r\<rparr>)) = map_sum id fst (ai_decision g))"
proof -
  have sp: "\<exists>a g'. ai_decision g = Inr (a, g')
             \<and> a = (if h < s then Stand else Hit)
             \<and> (if a = Hit then h else s) = max h s
             \<and> (a = Hit) = (s \<le> h)
             \<and> q_table g' = q_table g
             \<and> choices (rng g') = choices (rng g)"
    if "q_table g (compute_state g) = Some (h, s)" for h s
    by (simp add: ai_decision_exploit [OF assms that])
  have nw: "\<exists>g'. ai_decision g = Inr (Hit, g')"
    if "q_table g (compute_state g) = None"
    by (simp add: ai_decision_exploit_new [OF assms that])
  have det: "map_sum id fst (ai_decision (g\<lparr>rng := r\<rparr>)) = map_sum id fst (ai_decision g)"
    if r: "0 \<le> randoms r 0" for r
  proof -
    have e: "epsilon (g\<lparr>rng := r\<rparr>) = 0" using assms(1) by simp
    have r': "0 \<le> randoms (rng (g\<lparr>rng := r\<rparr>)) 0" using r by simp
    have c: "compute_state (g\<lparr>rng := r\<rparr>) = compute_state g"
      by (simp add: compute_state_def)
    show ?thesis
    proof (cases "q_table g (compute_state g)")
      case None
      then have "q_table (g\<lparr>rng := r\<rparr>) (compute_state (g\<lparr>rng := r\<rparr>)) = None"
        by (simp add: c)
      from ai_decision_exploit_new [OF e r' this] ai_decision_exploit_new [OF assms None]
      show ?thesis by simp
    next
      case (Some q)
      obtain h s where q: "q = (h, s)" by (cases q)
      with Some have 1: "q_table g (compute_state g) = Some (h, s)" by simp
      then have "q_table (g\<lparr>rng := r\<rparr>) (compute_state (g\<lparr>rng := r\<rparr>)) = Some (h, s)"
        by (simp add: c)
      from ai_decision_exploit [OF e r' this] ai_decision_exploit [OF assms 1]
      show ?thesis by simp
    qed
  qed
  have a: "q_table g (compute_state g) = Some (5, 3) \<longrightarrow> (\<exists>g'. ai_decision g = Inr (Hit, g'))"
    using sp [of 5 3] by auto
  have b: "q_table g (compute_state g) = Some (3, 5) \<longrightarrow> (\<exists>g'. ai_decision g = Inr (Stand, g'))"
    using sp [of 3 5] by auto
  have c: "q_table g (compute_state g) = Some (v, v) \<longrightarrow> (\<exists>g'. ai_decision g = Inr (Hit, g'))"
    using sp [of v v] by auto
  from a b c nw sp det show ?thesis by blast
qed

theorem greedy_when_epsilon_zero_witness:
  "(\<exists>g'. ai_decision (greedy_game (5, 3)) = Inr (Hit, g'))
   \<and> (\<exists>g'. ai_decision (greedy_game (3, 5)) = Inr (Stand, g'))
   \<and> (\<exists>g'. ai_decision (greedy_game (4, 4)) = Inr (Hit, g'))
   \<and> (\<exists>g'. ai_decision (game1\<lparr>epsilon := 0\<rparr>) = Inr (Hit, g'))
   \<and> (\<exists>g'. ai_decision (greedy_game (1, 2)) = Inr (Stand, g'))
   \<and> map_sum id fst (ai_decision ((greedy_game (1, 2))\<lparr>rng := rand0\<lparr>randoms := \<lambda>k. 1 / 4\<rparr>\<rparr>))
       = Inr Stand"
proof -
  have s: "compute_state (greedy_game q) = (11, Some Ten, False)" for q
    using eval_state1 by (simp add: compute_state_def greedy_game_def)
  have e: "epsilon (greedy_game q) = 0" for q
    by (simp add: greedy_game_def)
  have r: "0 \<le> randoms (rng (greedy_game q)) 0" for q
    by (simp add: greedy_game_def game1_def game0_def rand0_def)
  have t: "q_table (greedy_game q) (11, Some Ten, False) = Some q" for q
    by (simp add: greedy_game_def)
  have e': "epsilon (game1\<lparr>epsilon := 0\<rparr>) = 0"
    by simp
  have r': "0 \<le> randoms (rng (game1\<lparr>epsilon := 0\<rparr>)) 0"
    by (simp add: game1_def game0_def rand0_def)
  have t': "q_table (game1\<lparr>epsilon := 0\<rparr>) (compute_state (game1\<lparr>epsilon := 0\<rparr>)) = None"
    by (simp add: game1_def game0_def)
  have n: "\<exists>g'. ai_decision (game1\<lparr>epsilon := 0\<rparr>) = Inr (Hit, g')"
    using greedy_when_epsilon_zero [OF e' r', of 4] t' by blast
  have g12: "q_table (greedy_game (1, 2)) (compute_state (greedy_game (1, 2))) = Some (1, 2)"
    by (simp add: s t)
  have st: "\<exists>g'. ai_decision (greedy_game (1, 2)) = Inr (Stand, g')"
    using greedy_when_epsilon_zero [OF e r, of "(1, 2)" 4] g12 by fastforce
  have r2: "0 \<le> randoms (rand0\<lparr>randoms := \<lambda>k. 1 / 4\<rparr>) 0"
    by simp
  have d: "map_sum id fst (ai_decision ((greedy_game (1, 2))\<lparr>rng := rand0\<lparr>randoms := \<lambda>k. 1 / 4\<rparr>\<rparr>))
       = Inr Stand"
    using greedy_when_epsilon_zero [OF e r, of "(1, 2)" 4] r2 st by auto
  have x: "\<exists>g'. ai_decision (greedy_game (5, 3)) = Inr (Hit, g')"
    using greedy_when_epsilon_zero [OF e r, of "(5, 3)" 4] by (simp add: s t)
  have y: "\<exists>g'. ai_decision (greedy_game (3, 5)) = Inr (Stand, g')"
    using greedy_when_epsilon_zero [OF e r, of "(3, 5)" 4] by (simp add: s t)
  have z: "\<exists>g'. ai_decision (greedy_game (4, 4)) = Inr (Hit, g')"
    using greedy_when_epsilon_zero [OF e r, of "(4, 4)" 4] by (simp add: s t)
  from x y z n st d show ?thesis by blast
qed

text \<open>
  C4, as the specification states it, fails in its reason: a dealt card need not add to
  the hand score.  The dealer at Ace, 5 scores 16; the deck deals a 10; the hand Ace, 5,
  10 scores 16 again.
\<close>

theorem dealt_card_score_counterexample:
  "score_hand (dealer_hand soft16) = 16
   \<and> deal soft16 = Inr (Card Clubs Ten, soft16\<lparr>deck := [Card Clubs Six]\<rparr>)
   \<and> score_hand (dealer_hand soft16 @ [Card Clubs Ten]) = 16
   \<and> \<not> score_hand (dealer_hand soft16) + 1 \<le> score_hand (dealer_hand soft16 @ [Card Clubs Ten])"
  by (simp add: soft16_def game0_def deal_nonempty score_hand_eq_spec spec_score_def Card_def)

text \<open>
  C4, amended: for every deck and every dealer hand the dealer's turn returns, with the
  round over and the dealer's score at least 17, the dealer's hand being the old one with
  the dealt cards appended.  It ends because every dealt card adds at least 1 to the hard
  total of the hand (each Ace counted as 1), which the score is never below, and because
  the deck refills when it is exhausted: a deal returns whenever each shuffle to come
  leaves a non-empty list, as a permutation of the 52 cards does.
\<close>

theorem dealer_turn_reaches_17:
  assumes "\<forall>k. shuffles (rng g) k \<noteq> []"
  shows "(\<exists>g' cs. dealer_turn g = Inr g' \<and> 17 \<le> score_hand (dealer_hand g') \<and> game_over g'
            \<and> dealer_hand g' = dealer_hand g @ cs \<and> player_hand g' = player_hand g)
     \<and> hard_total hand + 1 \<le> hard_total (hand @ [c])
     \<and> hard_total hand \<le> score_hand hand
     \<and> (\<exists>c' g1. deal g = Inr (c', g1) \<and> (\<forall>k. shuffles (rng g1) k \<noteq> []))"
  using dealer_turn_returns [OF assms] deal_returns [OF assms] hard_total_snoc hard_total_le_score
  by blast

theorem dealer_turn_reaches_17_witness:
  "\<exists>g'. dealer_turn soft16 = Inr g' \<and> 17 \<le> score_hand (dealer_hand g')
     \<and> dealer_hand g' = [Card Hearts Ace, Card Diamonds Five, Card Clubs Ten, Card Clubs Six]"
proof -
  have n: "\<forall>k. shuffles (rng soft16) k \<noteq> []"
    by (simp add: soft16_def game0_def rand0_def shuffled0_def)
  have 1: "score_hand [Card Hearts Ace, Card Diamonds Five] = 16"
    and 2: "score_hand [Card Hearts Ace, Card Diamonds Five, Card Clubs Ten] = 16"
    and 3: "score_hand [Card Hearts Ace, Card Diamonds Five, Card Clubs Ten, Card Clubs Six] = 22"
    by (simp_all add: score_hand_eq_spec spec_score_def Card_def)
  have "dealer_turn soft16 =
      Inr (soft16\<lparr>deck := [], dealer_hand :=
             [Card Hearts Ace, Card Diamonds Five, Card Clubs Ten, Card Clubs Six],
             game_over := True\<rparr>)"
    apply (subst dealer_turn.simps)
    apply (simp add: soft16_def game0_def deal_nonempty 1)
    apply (subst dealer_turn.simps)
    apply (simp add: deal_nonempty 2)
    apply (subst dealer_turn.simps)
    apply (simp add: 3)
    done
  with dealer_turn_reaches_17 [OF n] show ?thesis by auto
qed

end
